theory Spec2Isabelle
  imports Main "HOL-Library.Sublist"
begin

section \<open>Python strings\<close>

text \<open>
  A Python \<^verbatim>\<open>str\<close> is modelled as a \<^typ>\<open>string\<close>: a list of characters, each
  character read as one code point below 256. The string methods that
  \<^verbatim>\<open>smart_commit.py\<close> calls are embedded below with the meaning CPython gives
  them on such code points.
\<close>

text \<open>
  \<^verbatim>\<open>str.isspace\<close> on one code point. Below 256 the white-space code points are
  TAB, LF, VT, FF, CR, the separators FS, GS, RS, US, the space, NEL and the
  no-break space.
\<close>

definition isspace :: "char \<Rightarrow> bool" where
  "isspace c = (let n = (of_char c :: nat) in
     (9 \<le> n \<and> n \<le> 13) \<or> (28 \<le> n \<and> n \<le> 32) \<or> n = 133 \<or> n = 160)"

text \<open>\<^verbatim>\<open>s.strip()\<close>: leading and trailing white space removed.\<close>

definition strip :: "string \<Rightarrow> string" where
  "strip s = rev (dropWhile isspace (rev (dropWhile isspace s)))"

text \<open>
  \<^verbatim>\<open>str.lower\<close> on one code point: below 256 the upper-case letters are
  \<^verbatim>\<open>A\<close>..\<^verbatim>\<open>Z\<close> and the Latin-1 letters 192..222 without the multiplication
  sign 215; each has its lower-case form 32 code points above.
\<close>

definition lower_char :: "char \<Rightarrow> char" where
  "lower_char c = (let n = (of_char c :: nat) in
     if (65 \<le> n \<and> n \<le> 90) \<or> (192 \<le> n \<and> n \<le> 222 \<and> n \<noteq> 215)
     then char_of (n + 32) else c)"

definition lower :: "string \<Rightarrow> string" where
  "lower s = map lower_char s"

text \<open>\<^verbatim>\<open>s.startswith(p)\<close>, \<^verbatim>\<open>s.endswith(e)\<close> and \<^verbatim>\<open>sub in s\<close>.\<close>

definition startswith :: "string \<Rightarrow> string \<Rightarrow> bool" where
  "startswith s p = prefix p s"

definition endswith :: "string \<Rightarrow> string \<Rightarrow> bool" where
  "endswith s e = suffix e s"

definition contains :: "string \<Rightarrow> string \<Rightarrow> bool" where
  "contains sub s = sublist sub s"

section \<open>Exceptions\<close>

text \<open>
  The exceptions that can leave a function of the script. \<^verbatim>\<open>sys.exit(n)\<close>
  raises \<^verbatim>\<open>SystemExit\<close> with the exit status \<open>n\<close>; the other three are raised
  by the interpreter and its library and end the process with a traceback.
\<close>

datatype error =
    FileNotFoundError
  | NameError string
  | AttributeError
  | EOFError
  | SystemExit int

section \<open>The type classifier\<close>

text \<open>
  The names bound in the module's global scope when \<^verbatim>\<open>main()\<close> runs: the three
  imports and the seven functions (the interpreter adds names of its own, all
  with double underscores). Loop variables of generator expressions and
  comprehensions are local to those expressions and are not among them.
\<close>

definition module_globals :: "string list" where
  "module_globals =
     [''subprocess'', ''sys'', ''os'', ''get_staged_files'', ''detect_commit_type'',
      ''generate_summary'', ''generate_body'', ''confirm_message'', ''run_commit'',
      ''main'']"

text \<open>
  Reading a name that the enclosing function does not bind: a lookup among
  the globals (the built-in names come after them, and the one-letter name read
  here is not one of those). None of the module's globals is a string, so
  calling \<^verbatim>\<open>.endswith\<close> on one that is found would raise \<^verbatim>\<open>AttributeError\<close>;
  a name that is not found raises \<^verbatim>\<open>NameError\<close>.
\<close>

definition global_endswith :: "string \<Rightarrow> string \<Rightarrow> error + bool" where
  "global_endswith name ext =
     (if name \<in> set module_globals then Inl AttributeError else Inl (NameError name))"

text \<open>
  \<^verbatim>\<open>any(body for x in xs)\<close> where the body can raise: the elements are visited
  in order, the first true one ends the search, an exception ends it too.
\<close>

fun any_gen :: "('a \<Rightarrow> error + bool) \<Rightarrow> 'a list \<Rightarrow> error + bool" where
  "any_gen body [] = Inr False"
| "any_gen body (x # xs) =
     (case body x of
        Inl e \<Rightarrow> Inl e
      | Inr b \<Rightarrow> if b then Inr True else any_gen body xs)"

text \<open>
  \<^verbatim>\<open>detect_commit_type(files)\<close>. The first two tests range over \<^verbatim>\<open>files\<close> with
  the loop variable \<^verbatim>\<open>f\<close>. The third and fourth generator expressions range
  over the extension lists with the loop variable \<^verbatim>\<open>ext\<close> and read \<^verbatim>\<open>f\<close>,
  which is bound neither in them nor in the function: it is looked up as a
  global.
\<close>

definition detect_commit_type :: "string list \<Rightarrow> error + string" where
  "detect_commit_type files =
     (if list_all (\<lambda>f. endswith f ''.md'') files then Inr ''docs''
      else if list_ex (\<lambda>f. contains ''test'' (lower f) \<or> startswith f ''tests'') files
        then Inr ''test''
      else
        case any_gen (\<lambda>ext. global_endswith ''f'' ext)
               [''.py'', ''.js'', ''.ts'', ''.cpp'', ''.h''] of
          Inl e \<Rightarrow> Inl e
        | Inr source \<Rightarrow>
            if source then Inr ''feat''
            else
              (case any_gen (\<lambda>ext. global_endswith ''f'' ext)
                      [''package.json'', ''package-lock.json'', ''pyproject.toml''] of
                 Inl e \<Rightarrow> Inl e
               | Inr manifest \<Rightarrow> if manifest then Inr ''chore'' else Inr ''chore''))"

text \<open>
  The simplified classifier of claim C9, written from the claim's words and not
  from the source: all files end in \<^verbatim>\<open>.md\<close> gives \<^verbatim>\<open>docs\<close>, any file with
  the token \<^verbatim>\<open>test\<close> (case-insensitive) gives \<^verbatim>\<open>test\<close>, any file with a
  source-code extension gives \<^verbatim>\<open>feat\<close>, anything else \<^verbatim>\<open>chore\<close>.
\<close>

definition spec_three_rule_classifier :: "string list \<Rightarrow> string" where
  "spec_three_rule_classifier files =
     (if list_all (\<lambda>f. endswith f ''.md'') files then ''docs''
      else if list_ex (\<lambda>f. contains ''test'' (lower f)) files then ''test''
      else if list_ex (\<lambda>f. list_ex (\<lambda>ext. endswith f ext)
                 [''.py'', ''.js'', ''.ts'', ''.cpp'', ''.h'']) files then ''feat''
      else ''chore'')"

section \<open>The message composer\<close>

text \<open>
  \<^verbatim>\<open>s.rfind(c)\<close> for a one-character \<open>c\<close>: the index of the last occurrence,
  or \<open>-1\<close> when there is none.
\<close>

definition rfind :: "string \<Rightarrow> char \<Rightarrow> int" where
  "rfind s c = int (length s) - 1 - int (length (takeWhile (\<lambda>x. x \<noteq> c) (rev s)))"

text \<open>
  \<^verbatim>\<open>os.path.basename\<close> and \<^verbatim>\<open>os.path.splitext\<close> of a POSIX system (the script's
  target: \<^verbatim>\<open>os.path\<close> is \<^verbatim>\<open>posixpath\<close>). The base name is what follows the last
  slash. The extension starts at the last dot, provided the dot comes after the
  last slash and some character between that slash and the dot is not a dot
  itself (leading dots of a file name do not start an extension).
\<close>

definition basename :: "string \<Rightarrow> string" where
  "basename p = drop (nat (rfind p CHR ''/'' + 1)) p"

definition splitext :: "string \<Rightarrow> string \<times> string" where
  "splitext p =
     (let sepIndex = rfind p CHR ''/'';
          dotIndex = rfind p CHR ''.''
      in if dotIndex > sepIndex \<and>
            list_ex (\<lambda>c. c \<noteq> CHR ''.'')
              (take (nat (dotIndex - (sepIndex + 1))) (drop (nat (sepIndex + 1)) p))
         then (take (nat dotIndex) p, drop (nat dotIndex) p)
         else (p, []))"

text \<open>\<^verbatim>\<open>str(n)\<close> for a length \<open>n\<close>: the decimal digits.\<close>

definition digit :: "nat \<Rightarrow> char" where
  "digit d = char_of (48 + d)"

function str_nat :: "nat \<Rightarrow> string" where
  "str_nat n = (if n < 10 then [digit n] else str_nat (n div 10) @ [digit (n mod 10)])"
  by pat_completeness auto
termination
  by (relation "measure id") auto

declare str_nat.simps [simp del]

text \<open>\<^verbatim>\<open>sep.join(xs)\<close>.\<close>

fun join :: "string \<Rightarrow> string list \<Rightarrow> string" where
  "join sep [] = []"
| "join sep [x] = x"
| "join sep (x # y # ys) = x @ sep @ join sep (y # ys)"

text \<open>\<^verbatim>\<open>generate_summary(commit_type, files)\<close>.\<close>

definition generate_summary :: "string \<Rightarrow> string list \<Rightarrow> string" where
  "generate_summary commit_type files =
     (if length files = 1 then
        let filename = basename (files ! 0);
            name_without_ext = fst (splitext filename)
        in commit_type @ ''('' @ name_without_ext @ ''): update '' @ filename
      else commit_type @ '': update '' @ str_nat (length files) @ '' files'')"

text \<open>\<^verbatim>\<open>generate_body(files)\<close>.\<close>

definition generate_body :: "string list \<Rightarrow> string" where
  "generate_body files = join [CHR 0x0A] (map (\<lambda>f. ''- Modified: '' @ f) files)"

section \<open>The process and its surroundings\<close>

text \<open>
  \<^verbatim>\<open>subprocess.run(cmd, ...)\<close> either raises (\<^verbatim>\<open>FileNotFoundError\<close> when the
  program cannot be started) or returns a \<^verbatim>\<open>CompletedProcess\<close> with the exit
  status and, when captured, the decoded standard output. A program that
  starts and fails is a completed process with a non-zero status: the script
  never passes \<^verbatim>\<open>check=True\<close>. What the external program does is a parameter
  of the model.
\<close>

record completed_process =
  returncode :: int
  stdout :: string

type_synonym subprocess = "string list \<Rightarrow> error + completed_process"

text \<open>
  The four notices the script prints are string literals that start with a
  symbol beyond code point 255; they are kept apart as constructors:
  the warning \<^verbatim>\<open>No staged changes found. Use 'git add' first.\<close>, and the lines
  \<^verbatim>\<open>Commit canceled.\<close>, \<^verbatim>\<open>Commit created successfully.\<close> and
  \<^verbatim>\<open>Git commit failed.\<close>
\<close>

datatype message =
    Text string
  | No_staged_changes
  | Commit_canceled
  | Commit_created
  | Commit_failed

text \<open>
  What the process does to the outside, in order: a line printed, the prompt
  of an \<^verbatim>\<open>input(prompt)\<close> call, a call of \<^verbatim>\<open>subprocess.run\<close> with its command
  line.
\<close>

datatype event =
    Print message
  | Prompt string
  | Run "string list"

text \<open>
  The state threaded through the script: the lines still to be read from standard
  input (each without its line end; after the last one comes the end of file)
  and the events so far.
\<close>

record world =
  stdin :: "string list"
  events :: "event list"

definition emit :: "event \<Rightarrow> world \<Rightarrow> world" where
  "emit e w = w\<lparr>events := events w @ [e]\<rparr>"

text \<open>\<^verbatim>\<open>input(prompt)\<close>: the prompt is written, one line is read; at the end of
  file \<^verbatim>\<open>EOFError\<close> is raised.\<close>

definition input_line :: "string \<Rightarrow> world \<Rightarrow> (error + string) \<times> world" where
  "input_line prompt w =
     (case stdin w of
        [] \<Rightarrow> (Inl EOFError, emit (Prompt prompt) w)
      | l # ls \<Rightarrow> (Inr l, (emit (Prompt prompt) w)\<lparr>stdin := ls\<rparr>))"

section \<open>The staged-file lister\<close>

text \<open>\<^verbatim>\<open>s.split(sep)\<close> for a one-character separator: every occurrence splits,
  and the empty string gives one empty part.\<close>

definition split_py :: "char \<Rightarrow> string \<Rightarrow> string list" where
  "split_py sep s =
     foldr (\<lambda>c parts. if c = sep then [] # parts else (c # hd parts) # tl parts) s [[]]"

definition git_diff_cmd :: "string list" where
  "git_diff_cmd = [''git'', ''diff'', ''--cached'', ''--name-only'']"

text \<open>\<^verbatim>\<open>get_staged_files()\<close>. The exit status of the command is not read.\<close>

definition get_staged_files :: "subprocess \<Rightarrow> world \<Rightarrow> (error + string list) \<times> world" where
  "get_staged_files run w =
     (let w1 = emit (Run git_diff_cmd) w in
      case run git_diff_cmd of
        Inl e \<Rightarrow> (Inl e, w1)
      | Inr result \<Rightarrow>
          (let files = split_py (CHR 0x0A) (strip (stdout result))
           in (Inr (filter (\<lambda>f. f \<noteq> []) files), w1)))"

section \<open>The interactive confirmer and the committer\<close>

text \<open>\<^verbatim>\<open>s.split(sep, 1)\<close>: at most one split, at the first occurrence.\<close>

definition split_once :: "char \<Rightarrow> string \<Rightarrow> string list" where
  "split_once sep s =
     (if sep \<in> set s
      then [takeWhile (\<lambda>c. c \<noteq> sep) s, tl (dropWhile (\<lambda>c. c \<noteq> sep) s)]
      else [s])"

text \<open>
  The line-collection loop of the edit branch: \<^verbatim>\<open>input()\<close> without a prompt
  until an empty line; the end of file before that raises \<^verbatim>\<open>EOFError\<close>. The
  result is the collected lines and the lines left on standard input.
\<close>

fun read_lines :: "string list \<Rightarrow> string list \<Rightarrow> (error + string list) \<times> string list" where
  "read_lines lines [] = (Inl EOFError, [])"
| "read_lines lines (line # rest) =
     (if line = [] then (Inr lines, rest) else read_lines (lines @ [line]) rest)"

definition print_suggestion :: "string \<Rightarrow> string \<Rightarrow> world \<Rightarrow> world" where
  "print_suggestion title body w =
     w\<lparr>events := events w @
        [Print (Text (CHR 0x0A # ''Suggested commit message:'')),
         Print (Text (replicate 40 CHR ''-'')),
         Print (Text title),
         Print (Text []),
         Print (Text body),
         Print (Text (replicate 40 CHR ''-''))]\<rparr>"

text \<open>\<^verbatim>\<open>confirm_message(title, body)\<close>.\<close>

definition confirm_message ::
  "string \<Rightarrow> string \<Rightarrow> world \<Rightarrow> (error + string \<times> string) \<times> world" where
  "confirm_message title body w =
     (case input_line ''Proceed with this commit? [Y/n/edit]: '' (print_suggestion title body w) of
        (Inl e, w1) \<Rightarrow> (Inl e, w1)
      | (Inr answer, w1) \<Rightarrow>
          (let choice = lower (strip answer) in
           if choice \<in> set [[], ''y'', ''yes''] then (Inr (title, body), w1)
           else if choice = ''edit'' then
             (let w2 = emit (Print (Text (CHR 0x0A #
                         ''Enter your custom commit message (end with an empty line):''))) w1
              in case read_lines [] (stdin w2) of
                   (Inl e, rest) \<Rightarrow> (Inl e, w2\<lparr>stdin := rest\<rparr>)
                 | (Inr lines, rest) \<Rightarrow>
                     (let full_message = join [CHR 0x0A] lines;
                          parts = split_once (CHR 0x0A) full_message;
                          title' = parts ! 0;
                          body' = (if length parts > 1 then parts ! 1 else [])
                      in (Inr (title', body'), w2\<lparr>stdin := rest\<rparr>)))
           else (Inl (SystemExit 0), emit (Print Commit_canceled) w1)))"

text \<open>\<^verbatim>\<open>run_commit(title, body)\<close>: first the command line, then the call.\<close>

definition commit_cmd :: "string \<Rightarrow> string \<Rightarrow> string list" where
  "commit_cmd title body =
     [''git'', ''commit'', ''-m'', title] @ (if strip body \<noteq> [] then [''-m'', body] else [])"

definition run_commit :: "subprocess \<Rightarrow> string \<Rightarrow> string \<Rightarrow> world \<Rightarrow> (error + unit) \<times> world" where
  "run_commit run title body w =
     (let cmd = commit_cmd title body;
          w1 = emit (Run cmd) w
      in case run cmd of
           Inl e \<Rightarrow> (Inl e, w1)
         | Inr result \<Rightarrow>
             if returncode result = 0 then (Inr (), emit (Print Commit_created) w1)
             else (Inr (), emit (Print Commit_failed) w1))"

section \<open>The script\<close>

text \<open>\<^verbatim>\<open>main()\<close>. An exception of a callee leaves \<^verbatim>\<open>main\<close> as it is.\<close>

definition main :: "subprocess \<Rightarrow> world \<Rightarrow> (error + unit) \<times> world" where
  "main run w =
     (case get_staged_files run w of
        (Inl e, w1) \<Rightarrow> (Inl e, w1)
      | (Inr files, w1) \<Rightarrow>
          if files = [] then (Inl (SystemExit 1), emit (Print No_staged_changes) w1)
          else
            (case detect_commit_type files of
               Inl e \<Rightarrow> (Inl e, w1)
             | Inr commit_type \<Rightarrow>
                 (let title = generate_summary commit_type files;
                      body = generate_body files
                  in case confirm_message title body w1 of
                       (Inl e, w2) \<Rightarrow> (Inl e, w2)
                     | (Inr (title', body'), w2) \<Rightarrow> run_commit run title' body' w2)))"

text \<open>
  The exit status of the process: 0 when \<^verbatim>\<open>main\<close> returns, the argument of
  \<^verbatim>\<open>sys.exit\<close>, and 1 for an exception that is not caught.
\<close>

definition exit_status :: "error + unit \<Rightarrow> int" where
  "exit_status r = (case r of Inr _ \<Rightarrow> 0 | Inl (SystemExit n) \<Rightarrow> n | Inl _ \<Rightarrow> 1)"

text \<open>
  The state in which \<^verbatim>\<open>confirm_message\<close> looks at the answer: the suggestion
  and the prompt are written, the answer is read and \<open>rest\<close> is left on standard
  input.
\<close>

definition prompted :: "string \<Rightarrow> string \<Rightarrow> string list \<Rightarrow> world \<Rightarrow> world" where
  "prompted title body rest w =
     (emit (Prompt ''Proceed with this commit? [Y/n/edit]: '')
        (print_suggestion title body w))\<lparr>stdin := rest\<rparr>"

text \<open>
  Reading a run: the events added between two states, and whether an event is
  a call of the commit operation.
\<close>

definition new_events :: "world \<Rightarrow> world \<Rightarrow> event list" where
  "new_events w w' = drop (length (events w)) (events w')"

definition is_commit :: "event \<Rightarrow> bool" where
  "is_commit e = (case e of Run cmd \<Rightarrow> take 2 cmd = [''git'', ''commit''] | _ \<Rightarrow> False)"

text \<open>
  Sample surroundings for concrete runs: a \<^verbatim>\<open>git\<close> that cannot be started; one
  that ends every command with \<open>status\<close> after writing \<open>out\<close>; one that lists
  the staged files as \<open>listing\<close> and ends the commit with \<open>status\<close>; and the
  state of a process that has done nothing yet and finds \<open>lines\<close> on standard
  input.
\<close>

definition git_missing :: subprocess where
  "git_missing cmd = Inl FileNotFoundError"

definition git_exits :: "int \<Rightarrow> string \<Rightarrow> subprocess" where
  "git_exits status out cmd = Inr \<lparr>returncode = status, stdout = out\<rparr>"

definition sample_git :: "string \<Rightarrow> int \<Rightarrow> subprocess" where
  "sample_git listing status cmd =
     (if cmd = git_diff_cmd then Inr \<lparr>returncode = 0, stdout = listing\<rparr>
      else Inr \<lparr>returncode = status, stdout = []\<rparr>)"

definition start :: "string list \<Rightarrow> world" where
  "start lines = \<lparr>stdin = lines, events = []\<rparr>"

section \<open>Properties of the classifier\<close>

lemma lower_append: "lower (xs @ ys) = lower xs @ lower ys"
  by (simp add: lower_def)

lemma lower_tests: "lower ''tests'' = ''tests''"
  by code_simp

lemma sublist_test_tests: "sublist ''test'' (''tests'' @ r)"
proof -
  have "''tests'' @ r = [] @ ''test'' @ (''s'' @ r)" by simp
  then show ?thesis unfolding sublist_def by blast
qed

text \<open>
  A path that begins with \<^verbatim>\<open>tests\<close> contains \<^verbatim>\<open>test\<close> once lower-cased, so the
  second disjunct of rule 2 never decides.
\<close>

lemma startswith_tests_contains_test:
  assumes "startswith f ''tests''"
  shows "contains ''test'' (lower f)"
proof -
  from assms obtain r where "f = ''tests'' @ r"
    by (auto simp: startswith_def prefix_def)
  then have "lower f = ''tests'' @ lower r"
    by (simp only: lower_append lower_tests)
  then show ?thesis
    by (simp only: contains_def sublist_test_tests)
qed

lemma rule3_raises:
  "any_gen (\<lambda>ext. global_endswith ''f'' ext) [''.py'', ''.js'', ''.ts'', ''.cpp'', ''.h'']
     = Inl (NameError ''f'')"
  by code_simp

text \<open>
  Where rule 1 or rule 2 decides, the source and the three-rule classifier
  agree; where neither does, the source raises.
\<close>

lemma detect_commit_type_cases:
  "detect_commit_type files =
     (if spec_three_rule_classifier files = ''docs'' then Inr ''docs''
      else if spec_three_rule_classifier files = ''test'' then Inr ''test''
      else Inl (NameError ''f''))"
proof -
  have same: "list_ex (\<lambda>f. contains ''test'' (lower f) \<or> startswith f ''tests'') files
      = list_ex (\<lambda>f. contains ''test'' (lower f)) files"
    by (auto simp: list_ex_iff dest: startswith_tests_contains_test)
  show ?thesis
    unfolding detect_commit_type_def spec_three_rule_classifier_def same rule3_raises
    by simp
qed

text \<open>
  Claim C8. The classifier applied to the empty staged-file set returns
  \<^verbatim>\<open>docs\<close>: the test of the first rule holds of every file of an empty list.
\<close>

theorem detect_commit_type_empty:
  "detect_commit_type [] = Inr ''docs''"
  by (simp add: detect_commit_type_def)

text \<open>
  Claim C2. A staged-file set with at least one path that carries a test token
  (the substring \<^verbatim>\<open>test\<close> in the lower-cased path, or the prefix \<^verbatim>\<open>tests\<close>) and
  with at least one path that does not end in \<^verbatim>\<open>.md\<close> is classified \<^verbatim>\<open>test\<close>.
  Rule 2 is decided before the source-extension rule is looked at, so source
  files in the set change nothing.
\<close>

theorem detect_commit_type_test:
  assumes "\<exists>f \<in> set files. contains ''test'' (lower f) \<or> startswith f ''tests''"
    and "\<not> (\<forall>f \<in> set files. endswith f ''.md'')"
  shows "detect_commit_type files = Inr ''test''"
proof -
  from assms(2) have "\<not> list_all (\<lambda>f. endswith f ''.md'') files"
    by (simp add: list_all_iff)
  moreover from assms(1)
  have "list_ex (\<lambda>f. contains ''test'' (lower f) \<or> startswith f ''tests'') files"
    by (simp add: list_ex_iff)
  ultimately show ?thesis
    by (simp add: detect_commit_type_def)
qed

theorem detect_commit_type_test_witness:
  "(\<exists>f \<in> set [''src/app.py'', ''Tests/check.py''].
      contains ''test'' (lower f) \<or> startswith f ''tests'')
   \<and> \<not> (\<forall>f \<in> set [''src/app.py'', ''Tests/check.py'']. endswith f ''.md'')
   \<and> detect_commit_type [''src/app.py'', ''Tests/check.py''] = Inr ''test''"
proof -
  have h1: "\<exists>f \<in> set [''src/app.py'', ''Tests/check.py''].
      contains ''test'' (lower f) \<or> startswith f ''tests''"
    by code_simp
  have h2: "\<not> (\<forall>f \<in> set [''src/app.py'', ''Tests/check.py'']. endswith f ''.md'')"
    by code_simp
  from h1 h2 detect_commit_type_test [OF h1 h2] show ?thesis
    by (intro conjI)
qed

text \<open>
  Claim C9. The claim equates the classifier with the three-rule classifier on
  every staged-file set. On the single file \<^verbatim>\<open>app.py\<close> the three-rule
  classifier answers \<^verbatim>\<open>feat\<close>, and the source raises \<^verbatim>\<open>NameError\<close>: rule 3
  reads the name \<^verbatim>\<open>f\<close> outside the generator expression that bound it.
\<close>

theorem detect_commit_type_source_file_raises:
  "detect_commit_type [''app.py''] = Inl (NameError ''f'')
   \<and> spec_three_rule_classifier [''app.py''] = ''feat''"
  by code_simp

section \<open>Properties of the composer\<close>

lemma rfind_Suc:
  "nat (rfind s c + 1) = length s - length (takeWhile (\<lambda>x. x \<noteq> c) (rev s))"
proof -
  have "length (takeWhile (\<lambda>x. x \<noteq> c) (rev s)) \<le> length s"
    using length_takeWhile_le [of "\<lambda>x. x \<noteq> c" "rev s"] by simp
  then show ?thesis
    by (simp add: rfind_def nat_diff_distrib')
qed

lemma drop_rev_take: "drop (length s - k) s = rev (take k (rev s))"
  by (simp add: take_rev)

lemma take_length_takeWhile: "take (length (takeWhile P xs)) xs = takeWhile P xs"
  by (induction xs) auto

lemma basename_eq: "basename p = rev (takeWhile (\<lambda>c. c \<noteq> CHR ''/'') (rev p))"
  by (simp only: basename_def rfind_Suc drop_rev_take take_length_takeWhile)

lemma basename_no_slash: "CHR ''/'' \<notin> set (basename p)"
proof -
  have "\<forall>x \<in> set (takeWhile (\<lambda>c. c \<noteq> CHR ''/'') (rev p)). x \<noteq> CHR ''/''"
    using set_takeWhileD by fastforce
  then show ?thesis by (auto simp: basename_eq)
qed

lemma basename_after_last_slash:
  "\<exists>d. p = d @ basename p \<and> (d = [] \<or> last d = CHR ''/'')"
proof -
  let ?P = "\<lambda>c. c \<noteq> CHR ''/''"
  have "rev p = takeWhile ?P (rev p) @ dropWhile ?P (rev p)" by simp
  then have "p = rev (dropWhile ?P (rev p)) @ rev (takeWhile ?P (rev p))"
    by (metis rev_append rev_rev_ident)
  moreover have "rev (dropWhile ?P (rev p)) = [] \<or> last (rev (dropWhile ?P (rev p))) = CHR ''/''"
  proof (cases "dropWhile ?P (rev p)")
    case Nil then show ?thesis by simp
  next
    case (Cons a as)
    then have "\<not> ?P a" using hd_dropWhile [of ?P "rev p"] by fastforce
    with Cons show ?thesis by simp
  qed
  ultimately show ?thesis unfolding basename_eq by blast
qed

lemma splitext_append: "fst (splitext p) @ snd (splitext p) = p"
  by (simp add: splitext_def Let_def)

lemma drop_rfind:
  assumes "0 \<le> rfind p c"
  shows "drop (nat (rfind p c)) p = c # rev (takeWhile (\<lambda>x. x \<noteq> c) (rev p))"
proof -
  let ?P = "\<lambda>x. x \<noteq> c"
  let ?tw = "takeWhile ?P (rev p)"
  let ?dw = "dropWhile ?P (rev p)"
  have split: "rev p = ?tw @ ?dw" by simp
  from assms have lt: "length ?tw < length p"
    by (simp add: rfind_def)
  have "length (rev p) = length ?tw + length ?dw"
    by (subst split) (simp only: length_append)
  with lt have "?dw \<noteq> []" by auto
  then obtain d ds where dw: "?dw = d # ds" by (cases ?dw) auto
  then have "d = c" using hd_dropWhile [of ?P "rev p"] by fastforce
  with split dw have "rev p = ?tw @ c # ds" by simp
  then have p: "p = rev ds @ c # rev ?tw"
    by (metis rev_append rev_rev_ident rev.simps(2) append_Cons append_Nil append_assoc)
  then have "length p = length ds + Suc (length ?tw)"
    by (metis length_append length_rev length_Cons)
  then have "nat (rfind p c) = length (rev ds)"
    by (simp add: rfind_def)
  then have "drop (nat (rfind p c)) p = drop (length (rev ds)) (rev ds @ c # rev ?tw)"
    using p by simp
  then show ?thesis by simp
qed

lemma splitext_ext:
  "snd (splitext p) = [] \<or>
     (hd (snd (splitext p)) = CHR ''.'' \<and> CHR ''.'' \<notin> set (tl (snd (splitext p))))"
proof (cases "snd (splitext p) = []")
  case True then show ?thesis by simp
next
  case False
  then have cond: "rfind p CHR ''.'' > rfind p CHR ''/''"
    and ext: "snd (splitext p) = drop (nat (rfind p CHR ''.'')) p"
    by (auto simp: splitext_def Let_def split: if_splits)
  have "- 1 \<le> rfind p CHR ''/''"
    using length_takeWhile_le [of "\<lambda>x. x \<noteq> CHR ''/''" "rev p"] by (simp add: rfind_def)
  with cond have "0 \<le> rfind p CHR ''.''" by simp
  from drop_rfind [OF this] ext
  have e: "snd (splitext p) = CHR ''.'' # rev (takeWhile (\<lambda>x. x \<noteq> CHR ''.'') (rev p))"
    by simp
  have "CHR ''.'' \<notin> set (takeWhile (\<lambda>x. x \<noteq> CHR ''.'') (rev p))"
    using set_takeWhileD by fastforce
  with e show ?thesis by simp
qed

text \<open>
  Claim C3. For a staged-file set of exactly one path \<open>f\<close>, the title is the
  commit type, the base name of \<open>f\<close> without its extension in parentheses, a
  colon, and \<^verbatim>\<open>update\<close> followed by the base name. The base name is what
  follows the last slash of \<open>f\<close>; it is the stem followed by the extension, and
  the extension is empty or begins at the last dot. For the type \<^verbatim>\<open>docs\<close> and
  the file \<^verbatim>\<open>README.md\<close> the title is \<^verbatim>\<open>docs(README): update README.md\<close>.
\<close>

theorem generate_summary_single_file:
  "(let base = basename f;
        stem = fst (splitext base);
        ext = snd (splitext base)
    in generate_summary commit_type [f] = commit_type @ ''('' @ stem @ ''): update '' @ base
       \<and> (\<exists>dir. f = dir @ base \<and> (dir = [] \<or> last dir = CHR ''/''))
       \<and> CHR ''/'' \<notin> set base
       \<and> base = stem @ ext
       \<and> (ext = [] \<or> hd ext = CHR ''.'' \<and> CHR ''.'' \<notin> set (tl ext)))
   \<and> generate_summary ''docs'' [''README.md''] = ''docs(README): update README.md''"
proof -
  have "generate_summary commit_type [f] =
     commit_type @ ''('' @ fst (splitext (basename f)) @ ''): update '' @ basename f"
    by (simp add: generate_summary_def Let_def)
  moreover have "generate_summary ''docs'' [''README.md''] = ''docs(README): update README.md''"
    by code_simp
  ultimately show ?thesis
    using basename_after_last_slash [of f] basename_no_slash [of f]
      splitext_append [of "basename f"] splitext_ext [of "basename f"]
    by (simp add: Let_def)
qed

section \<open>Properties of the lister, the confirmer and the committer\<close>

lemma all_dropWhile_iff:
  "(\<forall>x \<in> set (dropWhile P xs). P x) \<longleftrightarrow> (\<forall>x \<in> set xs. P x)"
proof
  assume a: "\<forall>x \<in> set (dropWhile P xs). P x"
  have "dropWhile P xs = []"
  proof (rule ccontr)
    assume n: "dropWhile P xs \<noteq> []"
    then have "\<not> P (hd (dropWhile P xs))" by (rule hd_dropWhile)
    moreover from n have "hd (dropWhile P xs) \<in> set (dropWhile P xs)" by simp
    ultimately show False using a by blast
  qed
  then show "\<forall>x \<in> set xs. P x" by simp
next
  assume "\<forall>x \<in> set xs. P x"
  then show "\<forall>x \<in> set (dropWhile P xs). P x"
    using set_dropWhileD by fastforce
qed

lemma strip_Nil_iff: "strip s = [] \<longleftrightarrow> (\<forall>c \<in> set s. isspace c)"
proof -
  have "strip s = [] \<longleftrightarrow> dropWhile isspace (rev (dropWhile isspace s)) = []"
    by (simp add: strip_def)
  also have "\<dots> \<longleftrightarrow> (\<forall>c \<in> set (dropWhile isspace s). isspace c)"
    by simp
  also have "\<dots> \<longleftrightarrow> (\<forall>c \<in> set s. isspace c)"
    by (rule all_dropWhile_iff)
  finally show ?thesis .
qed

lemma events_emit: "events (emit e w) = events w @ [e]"
  by (simp add: emit_def)

lemma stdin_emit: "stdin (emit e w) = stdin w"
  by (simp add: emit_def)

lemma main_at_prompt:
  assumes "get_staged_files run w0 = (Inr files, w)" and "files \<noteq> []"
    and "detect_commit_type files = Inr commit_type"
  shows "main run w0 =
     (case confirm_message (generate_summary commit_type files) (generate_body files) w of
        (Inl e, w2) \<Rightarrow> (Inl e, w2)
      | (Inr (title', body'), w2) \<Rightarrow> run_commit run title' body' w2)"
  using assms by (simp add: main_def Let_def)

lemma input_at_prompt:
  assumes "stdin w = answer # rest"
  shows "input_line ''Proceed with this commit? [Y/n/edit]: '' (print_suggestion title body w)
     = (Inr answer, prompted title body rest w)"
  using assms by (simp add: input_line_def print_suggestion_def prompted_def)

lemma confirm_accept:
  assumes "stdin w = answer # rest" and "lower (strip answer) \<in> set [[], ''y'', ''yes'']"
  shows "confirm_message title body w = (Inr (title, body), prompted title body rest w)"
  using assms(2) unfolding confirm_message_def input_at_prompt [OF assms(1)]
  by (simp add: Let_def)

lemma confirm_cancel:
  assumes "stdin w = answer # rest"
    and "lower (strip answer) \<notin> set [[], ''y'', ''yes'', ''edit'']"
  shows "confirm_message title body w =
     (Inl (SystemExit 0), emit (Print Commit_canceled) (prompted title body rest w))"
  using assms(2) unfolding confirm_message_def input_at_prompt [OF assms(1)]
  by (simp add: Let_def)

lemma confirm_edit_empty:
  assumes "stdin w = answer # [] # rest" and "lower (strip answer) = ''edit''"
  shows "confirm_message title body w =
     (Inr ([], []),
      (emit (Print (Text (CHR 0x0A #
          ''Enter your custom commit message (end with an empty line):'')))
        (prompted title body ([] # rest) w))\<lparr>stdin := rest\<rparr>)"
  unfolding confirm_message_def input_at_prompt [OF assms(1)]
  by (simp add: Let_def assms(2) stdin_emit prompted_def split_once_def)

lemma run_commit_result_events:
  "events (snd (run_commit run title body w)) =
     events w @ Run (commit_cmd title body) #
       (case run (commit_cmd title body) of
          Inl e \<Rightarrow> []
        | Inr result \<Rightarrow> [Print (if returncode result = 0 then Commit_created else Commit_failed)])"
  by (cases "run (commit_cmd title body)")
     (simp_all add: run_commit_def Let_def events_emit)

lemma get_staged_files_world:
  assumes "get_staged_files run w0 = (r, w)"
  shows "w = emit (Run git_diff_cmd) w0"
  using assms by (auto simp: get_staged_files_def Let_def split: sum.splits)

lemma events_prompted:
  "events (prompted title body rest w) =
     events w @
       [Print (Text (CHR 0x0A # ''Suggested commit message:'')),
        Print (Text (replicate 40 CHR ''-'')),
        Print (Text title),
        Print (Text []),
        Print (Text body),
        Print (Text (replicate 40 CHR ''-'')),
        Prompt ''Proceed with this commit? [Y/n/edit]: '']"
  by (simp add: prompted_def print_suggestion_def emit_def)

lemma strip_blank_names:
  assumes "\<forall>c \<in> set out. isspace c"
  shows "filter (\<lambda>f. f \<noteq> []) (split_py (CHR 0x0A) (strip out)) = []"
proof -
  from assms have "strip out = []" by (simp add: strip_Nil_iff)
  then show ?thesis by (simp add: split_py_def)
qed

lemma split_py_Cons:
  "split_py sep (c # s) =
     (if c = sep then [] # split_py sep s
      else (c # hd (split_py sep s)) # tl (split_py sep s))"
  by (simp add: split_py_def)

lemma split_py_Nil: "split_py sep [] = [[]]"
  by (simp add: split_py_def)

lemma split_py_not_Nil: "split_py sep s \<noteq> []"
  by (induction s) (simp_all add: split_py_Nil split_py_Cons)

lemma join_Cons_Cons: "join sep ((c # y) # ys) = c # join sep (y # ys)"
  by (cases ys) simp_all

lemma join_Nil_Cons: "ps \<noteq> [] \<Longrightarrow> join sep ([] # ps) = sep @ join sep ps"
  by (cases ps) simp_all

lemma join_split_py: "join [sep] (split_py sep s) = s"
proof (induction s)
  case Nil
  show ?case by (simp add: split_py_Nil)
next
  case (Cons c s)
  obtain y ys where ps: "split_py sep s = y # ys"
    using split_py_not_Nil [of sep s] by (cases "split_py sep s") auto
  show ?case
  proof (cases "c = sep")
    case True
    with Cons show ?thesis
      by (simp add: split_py_Cons join_Nil_Cons split_py_not_Nil)
  next
    case False
    with Cons ps show ?thesis
      by (simp add: split_py_Cons join_Cons_Cons)
  qed
qed

lemma split_py_no_sep: "p \<in> set (split_py sep s) \<Longrightarrow> sep \<notin> set p"
proof (induction s arbitrary: p)
  case Nil
  then show ?case by (simp add: split_py_Nil)
next
  case (Cons c s)
  obtain y ys where ps: "split_py sep s = y # ys"
    using split_py_not_Nil [of sep s] by (cases "split_py sep s") auto
  show ?case
  proof (cases "c = sep")
    case True
    with Cons show ?thesis by (auto simp: split_py_Cons)
  next
    case False
    with Cons.prems ps have "p = c # y \<or> p \<in> set ys"
      by (simp add: split_py_Cons)
    then show ?thesis
    proof
      assume "p = c # y"
      moreover have "sep \<notin> set y" using Cons.IH [of y] ps by simp
      ultimately show ?thesis using False by simp
    next
      assume "p \<in> set ys"
      then show ?thesis using Cons.IH [of p] ps by simp
    qed
  qed
qed

text \<open>
  Claim C1. The claim asks for a fatal error whenever the list operation cannot
  be carried out, and never the empty set. The lister raises only when the
  program cannot be started. A \<^verbatim>\<open>git\<close> that starts and fails, as it does outside
  a repository, ends with a non-zero status and writes its complaint to
  standard error; standard output stays empty, the status is not read, and the
  lister returns the empty list, as it does when nothing is staged.
\<close>

theorem get_staged_files_not_a_repository:
  "fst (get_staged_files (git_exits 128 []) (start [])) = Inr []
   \<and> get_staged_files (git_exits 128 []) (start [])
     = get_staged_files (git_exits 0 []) (start [])"
  by (simp add: get_staged_files_def git_exits_def Let_def strip_def split_py_def)

text \<open>
  Claim C1 as amended. When \<^verbatim>\<open>subprocess.run\<close> raises (the program is missing)
  the exception leaves the lister. When the command completes, the lister
  returns the names parsed from standard output: the output without the white
  space around it is cut at its line feeds into lines (joined by line feeds
  they give it back, and none of them holds a line feed), and the names are
  the lines that are not empty, in order. The exit status has no influence on
  the result, and blank standard output gives the empty list whatever the
  status.
\<close>

theorem get_staged_files_failures:
  "(run git_diff_cmd = Inl e \<longrightarrow> fst (get_staged_files run w) = Inl e)
   \<and> (run git_diff_cmd = Inr result \<longrightarrow>
        (let lines = split_py (CHR 0x0A) (strip (stdout result))
         in fst (get_staged_files run w) = Inr (filter (\<lambda>f. f \<noteq> []) lines)
            \<and> join [CHR 0x0A] lines = strip (stdout result)
            \<and> list_all (\<lambda>l. CHR 0x0A \<notin> set l) lines)
        \<and> get_staged_files run w = get_staged_files (git_exits 0 (stdout result)) w)
   \<and> (run git_diff_cmd = Inr result \<and> (\<forall>c \<in> set (stdout result). isspace c) \<longrightarrow>
        fst (get_staged_files run w) = Inr [])"
proof (intro conjI impI)
  show "fst (get_staged_files run w) = Inl e" if "run git_diff_cmd = Inl e"
    using that by (simp add: get_staged_files_def Let_def)
  show "let lines = split_py (CHR 0x0A) (strip (stdout result))
         in fst (get_staged_files run w) = Inr (filter (\<lambda>f. f \<noteq> []) lines)
            \<and> join [CHR 0x0A] lines = strip (stdout result)
            \<and> list_all (\<lambda>l. CHR 0x0A \<notin> set l) lines"
    if "run git_diff_cmd = Inr result"
    using that
    by (simp add: get_staged_files_def Let_def join_split_py list_all_iff split_py_no_sep)
  show "get_staged_files run w = get_staged_files (git_exits 0 (stdout result)) w"
    if "run git_diff_cmd = Inr result"
    using that by (simp add: get_staged_files_def git_exits_def Let_def)
  show "fst (get_staged_files run w) = Inr []"
    if "run git_diff_cmd = Inr result \<and> (\<forall>c \<in> set (stdout result). isspace c)"
    using that by (simp add: get_staged_files_def Let_def strip_blank_names)
qed

theorem get_staged_files_failures_witness:
  "fst (get_staged_files git_missing (start [])) = Inl FileNotFoundError
   \<and> fst (get_staged_files
            (git_exits 1 (''a.py'' @ [CHR 0x0A] @ ''docs/b.md'' @ [CHR 0x0A])) (start []))
       = Inr [''a.py'', ''docs/b.md'']
   \<and> get_staged_files (git_exits 1 (''a.py'' @ [CHR 0x0A] @ ''docs/b.md'' @ [CHR 0x0A])) (start [])
       = get_staged_files (git_exits 0 (''a.py'' @ [CHR 0x0A] @ ''docs/b.md'' @ [CHR 0x0A])) (start [])
   \<and> fst (get_staged_files (git_exits 1 [CHR 0x0A]) (start [])) = Inr []"
proof -
  let ?out = "''a.py'' @ [CHR 0x0A] @ ''docs/b.md'' @ [CHR 0x0A]"
  let ?r = "\<lparr>returncode = 1, stdout = ?out\<rparr>"
  have missing: "git_missing git_diff_cmd = Inl FileNotFoundError"
    by (simp add: git_missing_def)
  have failed: "git_exits 1 ?out git_diff_cmd = Inr ?r"
    by (simp add: git_exits_def)
  have silent: "git_exits 1 [CHR 0x0A] git_diff_cmd = Inr \<lparr>returncode = 1, stdout = [CHR 0x0A]\<rparr>"
    by (simp add: git_exits_def)
  have blank: "\<forall>c \<in> set (stdout \<lparr>returncode = 1, stdout = [CHR 0x0A]\<rparr>). isspace c"
    by (simp add: isspace_def)
  have names: "filter (\<lambda>f. f \<noteq> []) (split_py (CHR 0x0A) (strip (stdout ?r)))
      = [''a.py'', ''docs/b.md'']"
    by code_simp
  have 1: "fst (get_staged_files git_missing (start [])) = Inl FileNotFoundError"
    using missing get_staged_files_failures [of git_missing FileNotFoundError "start []"]
    by blast
  note T = get_staged_files_failures [of "git_exits 1 ?out" _ "start []" ?r]
  from T failed have
    "let lines = split_py (CHR 0x0A) (strip (stdout ?r))
     in fst (get_staged_files (git_exits 1 ?out) (start [])) = Inr (filter (\<lambda>f. f \<noteq> []) lines)
        \<and> join [CHR 0x0A] lines = strip (stdout ?r)
        \<and> list_all (\<lambda>l. CHR 0x0A \<notin> set l) lines"
    by blast
  then have "fst (get_staged_files (git_exits 1 ?out) (start []))
      = Inr (filter (\<lambda>f. f \<noteq> []) (split_py (CHR 0x0A) (strip (stdout ?r))))"
    by (simp only: Let_def)
  then have 2: "fst (get_staged_files (git_exits 1 ?out) (start [])) = Inr [''a.py'', ''docs/b.md'']"
    by (simp only: names)
  from T failed have "get_staged_files (git_exits 1 ?out) (start [])
      = get_staged_files (git_exits 0 (stdout ?r)) (start [])"
    by blast
  then have 3: "get_staged_files (git_exits 1 ?out) (start [])
      = get_staged_files (git_exits 0 ?out) (start [])"
    by simp
  have 4: "fst (get_staged_files (git_exits 1 [CHR 0x0A]) (start [])) = Inr []"
    using silent blank get_staged_files_failures
      [of "git_exits 1 [CHR 0x0A]" _ "start []" "\<lparr>returncode = 1, stdout = [CHR 0x0A]\<rparr>"]
    by blast
  from 1 2 3 4 show ?thesis by (intro conjI)
qed

text \<open>
  Claim C4. The commit operation is called once, with the title after the
  first \<^verbatim>\<open>-m\<close>; the body follows after a second \<^verbatim>\<open>-m\<close> exactly when it has a
  character that is not white space, and otherwise the title is the only
  message argument.
\<close>

theorem run_commit_message_arguments:
  "commit_cmd title body =
     (if \<exists>c \<in> set body. \<not> isspace c
      then [''git'', ''commit'', ''-m'', title, ''-m'', body]
      else [''git'', ''commit'', ''-m'', title])
   \<and> (\<exists>notice. new_events w (snd (run_commit run title body w))
         = Run (commit_cmd title body) # notice \<and> \<not> list_ex is_commit notice)"
proof
  show "commit_cmd title body =
     (if \<exists>c \<in> set body. \<not> isspace c
      then [''git'', ''commit'', ''-m'', title, ''-m'', body]
      else [''git'', ''commit'', ''-m'', title])"
    by (simp add: commit_cmd_def strip_Nil_iff)
  show "\<exists>notice. new_events w (snd (run_commit run title body w))
         = Run (commit_cmd title body) # notice \<and> \<not> list_ex is_commit notice"
    by (cases "run (commit_cmd title body)")
       (simp_all add: new_events_def run_commit_result_events is_commit_def)
qed

section \<open>Properties of the script\<close>

lemma main_events_at_prompt:
  assumes "get_staged_files run w0 = (Inr files, w)"
  shows "events (prompted title body rest w) =
     events w0 @ Run git_diff_cmd #
       [Print (Text (CHR 0x0A # ''Suggested commit message:'')),
        Print (Text (replicate 40 CHR ''-'')),
        Print (Text title),
        Print (Text []),
        Print (Text body),
        Print (Text (replicate 40 CHR ''-'')),
        Prompt ''Proceed with this commit? [Y/n/edit]: '']"
  unfolding events_prompted get_staged_files_world [OF assms]
  by (simp add: events_emit)

text \<open>
  Claim C7. When the lister returns the empty list, the script prints the
  warning and exits with status 1. The run consists of the list command and the
  warning: no suggestion is composed or shown, and no commit is called.
\<close>

theorem main_no_staged_files:
  assumes "fst (get_staged_files run w) = Inr []"
  shows "main run w =
           (Inl (SystemExit 1), emit (Print No_staged_changes) (emit (Run git_diff_cmd) w))
     \<and> exit_status (fst (main run w)) = 1
     \<and> new_events w (snd (main run w)) = [Run git_diff_cmd, Print No_staged_changes]
     \<and> \<not> list_ex is_commit (new_events w (snd (main run w)))"
proof -
  obtain r w1 where g: "get_staged_files run w = (r, w1)" by (cases "get_staged_files run w")
  with assms have r: "r = Inr []" by simp
  from g have w1: "w1 = emit (Run git_diff_cmd) w" by (rule get_staged_files_world)
  have m: "main run w =
      (Inl (SystemExit 1), emit (Print No_staged_changes) (emit (Run git_diff_cmd) w))"
    using g r w1 by (simp add: main_def)
  have ev: "new_events w (snd (main run w)) = [Run git_diff_cmd, Print No_staged_changes]"
    unfolding m by (simp add: new_events_def events_emit)
  show ?thesis
    unfolding ev using m by (simp add: exit_status_def is_commit_def git_diff_cmd_def)
qed

theorem main_no_staged_files_witness:
  "main (sample_git [] 0) (start [''y'']) =
     (Inl (SystemExit 1),
      emit (Print No_staged_changes) (emit (Run git_diff_cmd) (start [''y''])))
   \<and> exit_status (fst (main (sample_git [] 0) (start [''y'']))) = 1
   \<and> new_events (start [''y'']) (snd (main (sample_git [] 0) (start [''y''])))
       = [Run git_diff_cmd, Print No_staged_changes]
   \<and> \<not> list_ex is_commit
         (new_events (start [''y'']) (snd (main (sample_git [] 0) (start [''y'']))))"
proof -
  have h: "fst (get_staged_files (sample_git [] 0) (start [''y''])) = Inr []"
    by code_simp
  show ?thesis by (rule main_no_staged_files [OF h])
qed

text \<open>
  Claim C5. When the answer at the prompt is accepted (empty, \<^verbatim>\<open>y\<close> or \<^verbatim>\<open>yes\<close>
  once white space around it is removed and it is lower-cased, which is how
  the confirmer reads it), the confirmer returns the title and body it was
  given. A script that reached the prompt with a composed title and body then
  calls the committer with exactly these, and the commit command is run.
\<close>

theorem confirm_accept_commits_unchanged:
  assumes "stdin w = answer # rest"
    and "lower (strip answer) \<in> set [[], ''y'', ''yes'']"
  shows "fst (confirm_message title body w) = Inr (title, body)
     \<and> (get_staged_files run w0 = (Inr files, w) \<and> files \<noteq> []
          \<and> detect_commit_type files = Inr commit_type \<longrightarrow>
        main run w0 =
          run_commit run (generate_summary commit_type files) (generate_body files)
            (prompted (generate_summary commit_type files) (generate_body files) rest w)
        \<and> Run (commit_cmd (generate_summary commit_type files) (generate_body files))
            \<in> set (new_events w0 (snd (main run w0))))"
proof (intro conjI impI)
  show "fst (confirm_message title body w) = Inr (title, body)"
    by (simp add: confirm_accept [OF assms])
next
  let ?t = "generate_summary commit_type files" and ?b = "generate_body files"
  assume reach: "get_staged_files run w0 = (Inr files, w) \<and> files \<noteq> []
          \<and> detect_commit_type files = Inr commit_type"
  then have g: "get_staged_files run w0 = (Inr files, w)" by simp
  from reach show m: "main run w0 = run_commit run ?t ?b (prompted ?t ?b rest w)"
    by (simp add: main_at_prompt confirm_accept [OF assms])
  show "Run (commit_cmd ?t ?b) \<in> set (new_events w0 (snd (main run w0)))"
    unfolding m new_events_def run_commit_result_events main_events_at_prompt [OF g]
    by simp
qed

theorem confirm_accept_commits_unchanged_witness:
  "fst (confirm_message ''docs(README): update README.md'' ''- Modified: README.md''
          (emit (Run git_diff_cmd) (start [[]])))
     = Inr (''docs(README): update README.md'', ''- Modified: README.md'')
   \<and> Run [''git'', ''commit'', ''-m'', ''docs(README): update README.md'',
            ''-m'', ''- Modified: README.md'']
       \<in> set (new_events (start [[]])
                (snd (main (sample_git (''README.md'' @ [CHR 0x0A]) 0) (start [[]]))))"
proof -
  let ?run = "sample_git (''README.md'' @ [CHR 0x0A]) 0"
  let ?w = "emit (Run git_diff_cmd) (start [[]])"
  have h1: "stdin ?w = [] # []"
    by (simp add: emit_def start_def)
  have h2: "lower (strip []) \<in> set [[], ''y'', ''yes'']"
    by (simp add: strip_def lower_def)
  have h3: "get_staged_files ?run (start [[]]) = (Inr [''README.md''], ?w)
      \<and> [''README.md''] \<noteq> [] \<and> detect_commit_type [''README.md''] = Inr ''docs''"
    by code_simp
  have t: "generate_summary ''docs'' [''README.md''] = ''docs(README): update README.md''"
    by code_simp
  have b: "generate_body [''README.md''] = ''- Modified: README.md''"
    by code_simp
  have c: "commit_cmd ''docs(README): update README.md'' ''- Modified: README.md''
      = [''git'', ''commit'', ''-m'', ''docs(README): update README.md'',
         ''-m'', ''- Modified: README.md'']"
    by code_simp
  note T = confirm_accept_commits_unchanged [OF h1 h2,
      of "''docs(README): update README.md''" "''- Modified: README.md''"
         ?run "start [[]]" "[''README.md'']" "''docs''"]
  from T have 1: "fst (confirm_message ''docs(README): update README.md''
      ''- Modified: README.md'' ?w)
     = Inr (''docs(README): update README.md'', ''- Modified: README.md'')"
    by (rule conjunct1)
  from T h3 have "Run (commit_cmd (generate_summary ''docs'' [''README.md''])
        (generate_body [''README.md'']))
      \<in> set (new_events (start [[]]) (snd (main ?run (start [[]]))))"
    by blast
  then have 2: "Run [''git'', ''commit'', ''-m'', ''docs(README): update README.md'',
            ''-m'', ''- Modified: README.md'']
       \<in> set (new_events (start [[]]) (snd (main ?run (start [[]]))))"
    by (simp only: t b c)
  from 1 2 show ?thesis by (rule conjI)
qed

text \<open>
  Claim C6. When the answer at the prompt, read the same way, is none of the
  empty string, \<^verbatim>\<open>y\<close>, \<^verbatim>\<open>yes\<close> and \<^verbatim>\<open>edit\<close>, the confirmer prints the
  cancellation notice and raises \<^verbatim>\<open>SystemExit(0)\<close>. The script ends with exit
  status 0, the notice is the last thing it does, and no commit is called.
\<close>

theorem confirm_other_answer_cancels:
  assumes "stdin w = answer # rest"
    and "lower (strip answer) \<notin> set [[], ''y'', ''yes'', ''edit'']"
  shows "confirm_message title body w =
           (Inl (SystemExit 0), emit (Print Commit_canceled) (prompted title body rest w))
     \<and> (get_staged_files run w0 = (Inr files, w) \<and> files \<noteq> []
          \<and> detect_commit_type files = Inr commit_type \<longrightarrow>
        fst (main run w0) = Inl (SystemExit 0)
        \<and> exit_status (fst (main run w0)) = 0
        \<and> last (events (snd (main run w0))) = Print Commit_canceled
        \<and> \<not> list_ex is_commit (new_events w0 (snd (main run w0))))"
proof (intro conjI impI)
  show c: "confirm_message title body w =
           (Inl (SystemExit 0), emit (Print Commit_canceled) (prompted title body rest w))" for title body
    by (rule confirm_cancel [OF assms])
next
  let ?t = "generate_summary commit_type files" and ?b = "generate_body files"
  assume reach: "get_staged_files run w0 = (Inr files, w) \<and> files \<noteq> []
          \<and> detect_commit_type files = Inr commit_type"
  then have g: "get_staged_files run w0 = (Inr files, w)" by simp
  from reach have m: "main run w0 =
      (Inl (SystemExit 0), emit (Print Commit_canceled) (prompted ?t ?b rest w))"
    by (simp add: main_at_prompt confirm_cancel [OF assms])
  show "fst (main run w0) = Inl (SystemExit 0)" by (simp add: m)
  show "exit_status (fst (main run w0)) = 0" by (simp add: m exit_status_def)
  show "last (events (snd (main run w0))) = Print Commit_canceled"
    by (simp add: m events_emit)
  show "\<not> list_ex is_commit (new_events w0 (snd (main run w0)))"
    unfolding m new_events_def snd_conv events_emit main_events_at_prompt [OF g]
    by (simp add: is_commit_def git_diff_cmd_def)
qed

theorem confirm_other_answer_cancels_witness:
  "confirm_message ''docs(README): update README.md'' ''- Modified: README.md''
       (emit (Run git_diff_cmd) (start [''n'']))
     = (Inl (SystemExit 0),
        emit (Print Commit_canceled)
          (prompted ''docs(README): update README.md'' ''- Modified: README.md'' []
             (emit (Run git_diff_cmd) (start [''n'']))))
   \<and> fst (main (sample_git (''README.md'' @ [CHR 0x0A]) 0) (start [''n''])) = Inl (SystemExit 0)
   \<and> exit_status (fst (main (sample_git (''README.md'' @ [CHR 0x0A]) 0) (start [''n'']))) = 0
   \<and> last (events (snd (main (sample_git (''README.md'' @ [CHR 0x0A]) 0) (start [''n'']))))
       = Print Commit_canceled
   \<and> \<not> list_ex is_commit
         (new_events (start [''n''])
            (snd (main (sample_git (''README.md'' @ [CHR 0x0A]) 0) (start [''n'']))))"
proof -
  let ?run = "sample_git (''README.md'' @ [CHR 0x0A]) 0"
  let ?w = "emit (Run git_diff_cmd) (start [''n''])"
  have h1: "stdin ?w = ''n'' # []"
    by (simp add: emit_def start_def)
  have h2: "lower (strip ''n'') \<notin> set [[], ''y'', ''yes'', ''edit'']"
    by code_simp
  have h3: "get_staged_files ?run (start [''n'']) = (Inr [''README.md''], ?w)
      \<and> [''README.md''] \<noteq> [] \<and> detect_commit_type [''README.md''] = Inr ''docs''"
    by code_simp
  note T = confirm_other_answer_cancels [OF h1 h2,
      of "''docs(README): update README.md''" "''- Modified: README.md''"
         ?run "start [''n'']" "[''README.md'']" "''docs''"]
  from T h3 show ?thesis by blast
qed

text \<open>
  Claim C10. An edit session whose first line is empty returns the empty title
  and the empty body. The script goes on to the committer, which runs
  \<^verbatim>\<open>git commit -m ""\<close> with no second message argument; nothing is cancelled.
\<close>

theorem empty_edit_commits_empty_title:
  assumes "stdin w = answer # [] # rest"
    and "lower (strip answer) = ''edit''"
  shows "fst (confirm_message title body w) = Inr ([], [])
     \<and> commit_cmd [] [] = [''git'', ''commit'', ''-m'', []]
     \<and> (get_staged_files run w0 = (Inr files, w) \<and> files \<noteq> []
          \<and> detect_commit_type files = Inr commit_type \<longrightarrow>
        (\<exists>w'. main run w0 = run_commit run [] [] w')
        \<and> Run [''git'', ''commit'', ''-m'', []] \<in> set (new_events w0 (snd (main run w0)))
        \<and> Print Commit_canceled \<notin> set (new_events w0 (snd (main run w0))))"
proof (intro conjI impI)
  show "fst (confirm_message title body w) = Inr ([], [])"
    by (simp add: confirm_edit_empty [OF assms])
  show cmd: "commit_cmd [] [] = [''git'', ''commit'', ''-m'', []]"
    by (simp add: commit_cmd_def strip_def)
  let ?t = "generate_summary commit_type files" and ?b = "generate_body files"
  let ?w = "(emit (Print (Text (CHR 0x0A #
          ''Enter your custom commit message (end with an empty line):'')))
        (prompted ?t ?b ([] # rest) w))\<lparr>stdin := rest\<rparr>"
  assume reach: "get_staged_files run w0 = (Inr files, w) \<and> files \<noteq> []
          \<and> detect_commit_type files = Inr commit_type"
  then have g: "get_staged_files run w0 = (Inr files, w)" by simp
  from reach have m: "main run w0 = run_commit run [] [] ?w"
    by (simp add: main_at_prompt confirm_edit_empty [OF assms])
  then show "\<exists>w'. main run w0 = run_commit run [] [] w'" by blast
  have ev: "new_events w0 (snd (main run w0)) =
      Run git_diff_cmd #
       [Print (Text (CHR 0x0A # ''Suggested commit message:'')),
        Print (Text (replicate 40 CHR ''-'')),
        Print (Text ?t),
        Print (Text []),
        Print (Text ?b),
        Print (Text (replicate 40 CHR ''-'')),
        Prompt ''Proceed with this commit? [Y/n/edit]: '',
        Print (Text (CHR 0x0A #
          ''Enter your custom commit message (end with an empty line):'')),
        Run [''git'', ''commit'', ''-m'', []]] @
       (case run [''git'', ''commit'', ''-m'', []] of
          Inl e \<Rightarrow> []
        | Inr result \<Rightarrow> [Print (if returncode result = 0 then Commit_created else Commit_failed)])"
    unfolding m new_events_def run_commit_result_events cmd
    by (simp add: events_emit main_events_at_prompt [OF g])
  show "Run [''git'', ''commit'', ''-m'', []] \<in> set (new_events w0 (snd (main run w0)))"
    unfolding ev by simp
  show "Print Commit_canceled \<notin> set (new_events w0 (snd (main run w0)))"
    unfolding ev by (cases "run [''git'', ''commit'', ''-m'', []]") simp_all
qed

theorem empty_edit_commits_empty_title_witness:
  "fst (confirm_message ''docs(README): update README.md'' ''- Modified: README.md''
          (emit (Run git_diff_cmd) (start [''edit'', []]))) = Inr ([], [])
   \<and> commit_cmd [] [] = [''git'', ''commit'', ''-m'', []]
   \<and> (\<exists>w'. main (sample_git (''README.md'' @ [CHR 0x0A]) 1) (start [''edit'', []])
          = run_commit (sample_git (''README.md'' @ [CHR 0x0A]) 1) [] [] w')
   \<and> Run [''git'', ''commit'', ''-m'', []]
       \<in> set (new_events (start [''edit'', []])
                (snd (main (sample_git (''README.md'' @ [CHR 0x0A]) 1) (start [''edit'', []]))))
   \<and> Print Commit_canceled
       \<notin> set (new_events (start [''edit'', []])
                (snd (main (sample_git (''README.md'' @ [CHR 0x0A]) 1) (start [''edit'', []]))))"
proof -
  let ?run = "sample_git (''README.md'' @ [CHR 0x0A]) 1"
  let ?w = "emit (Run git_diff_cmd) (start [''edit'', []])"
  have h1: "stdin ?w = ''edit'' # [] # []"
    by (simp add: emit_def start_def)
  have h2: "lower (strip ''edit'') = ''edit''"
    by code_simp
  have h3: "get_staged_files ?run (start [''edit'', []]) = (Inr [''README.md''], ?w)
      \<and> [''README.md''] \<noteq> [] \<and> detect_commit_type [''README.md''] = Inr ''docs''"
    by code_simp
  note T = empty_edit_commits_empty_title [OF h1 h2,
      of "''docs(README): update README.md''" "''- Modified: README.md''"
         ?run "start [''edit'', []]" "[''README.md'']" "''docs''"]
  from T h3 show ?thesis by blast
qed

section \<open>Runs of the script on the specification's examples\<close>

lemma generate_summary_three_files:
  "generate_summary ''feat'' [''a.py'', ''b.py'', ''c.py''] = ''feat: update 3 files''"
  by code_simp

lemma generate_body_two_files:
  "generate_body [''x/y.py'', ''z.py'']
     = ''- Modified: x/y.py'' @ [CHR 0x0A] @ ''- Modified: z.py''"
  by code_simp

lemma confirm_message_edit_two_lines:
  "fst (confirm_message ''t'' ''b'' (start [''edit'', ''foo'', ''bar baz'', []]))
     = Inr (''foo'', ''bar baz'')"
  by code_simp

text \<open>
  A staged source file that carries no test token ends the script in rule 3 of
  the classifier, before anything is suggested.
\<close>

lemma main_source_file_raises:
  "main (sample_git (''app.py'' @ [CHR 0x0A]) 0) (start [''y''])
     = (Inl (NameError ''f''), emit (Run git_diff_cmd) (start [''y'']))"
  by code_simp

end
